theory Spec2Isabelle
  imports Main
begin

section \<open>JavaScript values and objects\<close>

text \<open>
  The permission system keeps its table role \<rightarrow> resource \<rightarrow> action \<rightarrow> check in plain
  JavaScript objects and reads it with property access \<open>o[k]\<close>, which looks at the
  object's own properties and then along its prototype chain. The objects are therefore
  modelled in an explicit store: an address maps to an object with its own properties, its
  prototype and, for a function, what a call does. The standard objects
  (\<open>Object.prototype\<close>, \<open>Function.prototype\<close>, ...) live in the same store.

  A thrown exception is a value of type \<open>fault\<close>; an operation that may throw returns
  \<open>fault + 'r\<close>, with \<open>Inl\<close> for the exception.
\<close>

datatype fault = TypeError string | Thrown string

type_synonym addr = nat

datatype val =
    VUndefined
  | VNull
  | VBool bool
  | VNum int
  | VStr string
  | VObj addr

text \<open>
  A property is a data property (a value and its writable attribute) or the accessor
  \<open>__proto__\<close> of \<open>Object.prototype\<close>, whose getter returns the receiver's prototype and
  whose setter replaces it.
\<close>

datatype property = Data val bool | ProtoAccessor

text \<open>
  The value found under the \<open>roles\<close> property of a caller. The property is read through
  \<open>(user as any).roles\<close>, so at run time it may be any JavaScript value; \<open>JUndefined\<close>
  is what a missing property reads as, and \<open>JObj\<close> stands for an object that is not an
  array (no \<open>some\<close> method).
\<close>

datatype jsval =
    JUndefined
  | JNull
  | JBool bool
  | JNum int
  | JStr string
  | JArr "string list"
  | JObj

text \<open>
  A caller (\<open>TUser\<close>): either \<open>null\<close>/\<open>undefined\<close> itself, or a value with a \<open>roles\<close>
  property and further attributes of the application's choice.
\<close>

datatype 'a caller = NoCaller | Caller (user_roles: jsval) (attrs: 'a)

text \<open>
  An object of the store. \<open>code\<close> is present for a function and gives the outcome of the
  call \<open>f(user, data)\<close> with \<open>this\<close> undefined, which is the only way the library calls
  a function; the optional parameter \<open>data?\<close> is \<open>None\<close> when the argument is omitted.
  Calls are taken to leave the store as it is. \<open>fixed_proto\<close> marks an object whose
  prototype cannot be replaced (\<open>Object.prototype\<close>). Every object is extensible.
\<close>

record ('a, 'd) obj =
  props :: "string \<rightharpoonup> property"
  proto :: "addr option"
  code :: "('a caller \<Rightarrow> 'd option \<Rightarrow> fault + val) option"
  fixed_proto :: bool

text \<open>
  The store: the objects, the next unused address, and the addresses of the standard
  prototypes that object literals, function expressions and primitive values refer to.
\<close>

record ('a, 'd) heap =
  objs :: "addr \<rightharpoonup> ('a, 'd) obj"
  fresh :: addr
  object_proto :: "addr option"
  function_proto :: "addr option"
  boolean_proto :: "addr option"
  number_proto :: "addr option"
  string_proto :: "addr option"

text \<open>JavaScript truthiness (\<open>ToBoolean\<close>) of a value.\<close>

fun truthy_val :: "val \<Rightarrow> bool" where
  "truthy_val VUndefined = False"
| "truthy_val VNull = False"
| "truthy_val (VBool b) = b"
| "truthy_val (VNum n) = (n \<noteq> 0)"
| "truthy_val (VStr s) = (s \<noteq> [])"
| "truthy_val (VObj a) = True"

subsection \<open>Property read\<close>

text \<open>
  The first property named \<open>k\<close> on the chain that starts at the given object. The walk
  is bounded by the number of steps given; a chain of a JavaScript store has no cycle, so
  it is shorter than the number of allocated objects.
\<close>

fun find_prop :: "nat \<Rightarrow> ('a, 'd) heap \<Rightarrow> addr option \<Rightarrow> string \<Rightarrow> property option" where
  "find_prop 0 h start k = None"
| "find_prop (Suc n) h None k = None"
| "find_prop (Suc n) h (Some a) k =
     (case objs h a of
        None \<Rightarrow> None
      | Some ob \<Rightarrow>
          (case props ob k of
             Some p \<Rightarrow> Some p
           | None \<Rightarrow> find_prop n h (proto ob) k))"

text \<open>
  Own properties of a string value, taken as its list of code units: \<open>length\<close> and
  the index properties, all read-only.
\<close>

definition digit_of :: "char \<Rightarrow> nat option" where
  "digit_of c =
     (let n = (of_char c :: nat) in if 48 \<le> n \<and> n \<le> 57 then Some (n - 48) else None)"

fun digits_value :: "nat \<Rightarrow> string \<Rightarrow> nat option" where
  "digits_value acc [] = Some acc"
| "digits_value acc (c # cs) =
     (case digit_of c of None \<Rightarrow> None | Some d \<Rightarrow> digits_value (10 * acc + d) cs)"

definition index_key :: "string \<Rightarrow> nat option" where
  "index_key k =
     (case k of
        [] \<Rightarrow> None
      | c # cs \<Rightarrow> if c = CHR ''0'' \<and> cs \<noteq> [] then None else digits_value 0 k)"

definition string_own :: "string \<Rightarrow> string \<Rightarrow> property option" where
  "string_own s k =
     (if k = ''length'' then Some (Data (VNum (int (length s))) False)
      else case index_key k of
             Some i \<Rightarrow> if i < length s then Some (Data (VStr [s ! i]) False) else None
           | None \<Rightarrow> None)"

text \<open>
  The property that a read or write of \<open>v[k]\<close> finds, for a value that is not
  \<open>undefined\<close> or \<open>null\<close>: a primitive is looked up through the prototype of its wrapper.
\<close>

fun lookup_prop :: "('a, 'd) heap \<Rightarrow> val \<Rightarrow> string \<Rightarrow> property option" where
  "lookup_prop h (VObj a) k = find_prop (Suc (fresh h)) h (Some a) k"
| "lookup_prop h (VBool b) k = find_prop (Suc (fresh h)) h (boolean_proto h) k"
| "lookup_prop h (VNum n) k = find_prop (Suc (fresh h)) h (number_proto h) k"
| "lookup_prop h (VStr s) k =
     (case string_own s k of
        Some p \<Rightarrow> Some p
      | None \<Rightarrow> find_prop (Suc (fresh h)) h (string_proto h) k)"
| "lookup_prop h v k = None"

text \<open>The prototype of a value, as the getter of \<open>__proto__\<close> returns it.\<close>

definition addr_val :: "addr option \<Rightarrow> val" where
  "addr_val p = (case p of None \<Rightarrow> VNull | Some a \<Rightarrow> VObj a)"

fun proto_val :: "('a, 'd) heap \<Rightarrow> val \<Rightarrow> val" where
  "proto_val h (VObj a) = (case objs h a of None \<Rightarrow> VNull | Some ob \<Rightarrow> addr_val (proto ob))"
| "proto_val h (VBool b) = addr_val (boolean_proto h)"
| "proto_val h (VNum n) = addr_val (number_proto h)"
| "proto_val h (VStr s) = addr_val (string_proto h)"
| "proto_val h v = VNull"

text \<open>
  The property read \<open>v[k]\<close>. On \<open>undefined\<close> and \<open>null\<close> it throws a TypeError.
\<close>

definition get :: "('a, 'd) heap \<Rightarrow> val \<Rightarrow> string \<Rightarrow> fault + val" where
  "get h v k =
     (if v = VUndefined \<or> v = VNull
      then Inl (TypeError ''Cannot read properties of undefined or null'')
      else case lookup_prop h v k of
             None \<Rightarrow> Inr VUndefined
           | Some (Data x w) \<Rightarrow> Inr x
           | Some ProtoAccessor \<Rightarrow> Inr (proto_val h v))"

subsection \<open>Property write\<close>

text \<open>Whether the chain that starts at \<open>start\<close> passes through the object \<open>target\<close>.\<close>

fun on_chain :: "nat \<Rightarrow> ('a, 'd) heap \<Rightarrow> addr option \<Rightarrow> addr \<Rightarrow> bool" where
  "on_chain 0 h start target = False"
| "on_chain (Suc n) h None target = False"
| "on_chain (Suc n) h (Some a) target =
     (if a = target then True
      else case objs h a of None \<Rightarrow> False | Some ob \<Rightarrow> on_chain n h (proto ob) target)"

text \<open>
  The setter of \<open>__proto__\<close>, called on the receiver with the assigned value: a value
  that is neither an object nor \<open>null\<close> is ignored, and so is a receiver that is not an
  object; replacing a fixed prototype or closing a cycle throws a TypeError.
\<close>

definition set_proto :: "('a, 'd) heap \<Rightarrow> val \<Rightarrow> val \<Rightarrow> fault + ('a, 'd) heap" where
  "set_proto h receiver v =
     (case v of
        VUndefined \<Rightarrow> Inr h
      | VBool b \<Rightarrow> Inr h
      | VNum n \<Rightarrow> Inr h
      | VStr s \<Rightarrow> Inr h
      | _ \<Rightarrow>
        (case receiver of
           VObj a \<Rightarrow>
             (case objs h a of
                None \<Rightarrow> Inl (TypeError ''no such object'')
              | Some ob \<Rightarrow>
                  (let p = (case v of VObj b \<Rightarrow> Some b | _ \<Rightarrow> None) in
                   if proto ob = p then Inr h
                   else if fixed_proto ob then Inl (TypeError ''Immutable prototype object'')
                   else if on_chain (Suc (fresh h)) h p a
                     then Inl (TypeError ''Cyclic __proto__ value'')
                   else Inr (h\<lparr>objs := (objs h)(a \<mapsto> ob\<lparr>proto := p\<rparr>)\<rparr>)))
         | _ \<Rightarrow> Inr h))"

text \<open>
  The assignment \<open>receiver[k] = v\<close> in strict mode (class bodies are strict code). An own
  writable data property is overwritten; a read-only property, own or inherited, makes the
  assignment throw; the inherited accessor runs its setter; otherwise an own property is
  created. A primitive receiver cannot take a new property.
\<close>

definition set_prop :: "('a, 'd) heap \<Rightarrow> val \<Rightarrow> string \<Rightarrow> val \<Rightarrow> fault + ('a, 'd) heap" where
  "set_prop h receiver k v =
     (if receiver = VUndefined \<or> receiver = VNull
      then Inl (TypeError ''Cannot set properties of undefined or null'')
      else case lookup_prop h receiver k of
             Some ProtoAccessor \<Rightarrow> set_proto h receiver v
           | Some (Data x False) \<Rightarrow> Inl (TypeError ''Cannot assign to read only property'')
           | _ \<Rightarrow>
             (case receiver of
                VObj a \<Rightarrow>
                  (case objs h a of
                     None \<Rightarrow> Inl (TypeError ''no such object'')
                   | Some ob \<Rightarrow>
                       Inr (h\<lparr>objs := (objs h)(a \<mapsto> ob\<lparr>props := (props ob)(k \<mapsto> Data v True)\<rparr>)\<rparr>))
              | _ \<Rightarrow> Inl (TypeError ''Cannot create property on a primitive value'')))"

subsection \<open>Object and function literals\<close>

text \<open>
  An object literal \<open>{k1: v1, ...}\<close> (keys other than \<open>__proto__\<close>) allocates an object
  with these own properties and the prototype \<open>Object.prototype\<close>; a function expression
  allocates a function object with the prototype \<open>Function.prototype\<close>.
\<close>

definition new_object :: "(string \<times> val) list \<Rightarrow> ('a, 'd) heap \<Rightarrow> addr \<times> ('a, 'd) heap" where
  "new_object kvs h =
     (fresh h,
      h\<lparr>objs := (objs h)(fresh h \<mapsto>
           \<lparr>props = map_of (map (\<lambda>(k, v). (k, Data v True)) kvs),
            proto = object_proto h, code = None, fixed_proto = False\<rparr>),
        fresh := Suc (fresh h)\<rparr>)"

definition new_function ::
  "('a caller \<Rightarrow> 'd option \<Rightarrow> fault + val) \<Rightarrow> ('a, 'd) heap \<Rightarrow> addr \<times> ('a, 'd) heap" where
  "new_function f h =
     (fresh h,
      h\<lparr>objs := (objs h)(fresh h \<mapsto>
           \<lparr>props = Map.empty, proto = function_proto h, code = Some f, fixed_proto = False\<rparr>),
        fresh := Suc (fresh h)\<rparr>)"

section \<open>AccessControl (core/access-control.ts)\<close>

text \<open>
  A \<open>PolicyDefinition\<close> is an object \<open>{ roles: ... }\<close>; it is represented by the address
  of the object under its \<open>roles\<close> property.
\<close>

record PolicyDefinition =
  roles :: addr

text \<open>JavaScript truthiness of the value under the caller's \<open>roles\<close>, as \<open>||\<close> tests it.\<close>

fun truthy :: "jsval \<Rightarrow> bool" where
  "truthy JUndefined = False"
| "truthy JNull = False"
| "truthy (JBool b) = b"
| "truthy (JNum n) = (n \<noteq> 0)"
| "truthy (JStr s) = (s \<noteq> [])"
| "truthy (JArr xs) = True"
| "truthy JObj = True"

text \<open>
  \<open>getUserRoles\<close>: \<open>return (user as any).roles || []\<close>. Reading a property of
  \<open>null\<close> or \<open>undefined\<close> throws a TypeError.
\<close>

fun getUserRoles :: "'a caller \<Rightarrow> fault + jsval" where
  "getUserRoles NoCaller = Inl (TypeError ''Cannot read properties of null'')"
| "getUserRoles (Caller r a) = Inr (if truthy r then r else JArr [])"

text \<open>
  \<open>evaluateCheck\<close>: a value of type boolean is returned as it is, a function is called
  with the caller and the data and its result returned, anything else gives \<open>false\<close>.
\<close>

definition evaluateCheck ::
  "('a, 'd) heap \<Rightarrow> val \<Rightarrow> 'a caller \<Rightarrow> 'd option \<Rightarrow> fault + val" where
  "evaluateCheck h check user data =
     (case check of
        VBool b \<Rightarrow> Inr (VBool b)
      | VObj a \<Rightarrow>
          (case objs h a of
             None \<Rightarrow> Inr (VBool False)
           | Some ob \<Rightarrow>
               (case code ob of
                  Some f \<Rightarrow> f user data
                | None \<Rightarrow> Inr (VBool False)))
      | _ \<Rightarrow> Inr (VBool False))"

text \<open>
  \<open>checkRolePermission\<close>: \<open>this.policy.roles[role]\<close> and \<open>rolePolicy[resource]\<close> are
  read and tested with \<open>!\<close>; then \<open>resourcePolicy[action]\<close> is read and handed to
  \<open>evaluateCheck\<close>.
\<close>

definition checkRolePermission ::
  "('a, 'd) heap \<Rightarrow> PolicyDefinition \<Rightarrow> string \<Rightarrow> string \<Rightarrow> string \<Rightarrow> 'a caller \<Rightarrow> 'd option
     \<Rightarrow> fault + val" where
  "checkRolePermission h policy role resource action user data =
     (case get h (VObj (roles policy)) role of
        Inl e \<Rightarrow> Inl e
      | Inr rolePolicy \<Rightarrow>
          if \<not> truthy_val rolePolicy then Inr (VBool False)
          else
            (case get h rolePolicy resource of
               Inl e \<Rightarrow> Inl e
             | Inr resourcePolicy \<Rightarrow>
                 if \<not> truthy_val resourcePolicy then Inr (VBool False)
                 else
                   (case get h resourcePolicy action of
                      Inl e \<Rightarrow> Inl e
                    | Inr permissionCheck \<Rightarrow> evaluateCheck h permissionCheck user data)))"

text \<open>
  \<open>Array.prototype.some\<close>: the callback runs on the elements in order, the first truthy
  result ends the loop with \<open>true\<close>, and an exception of the callback leaves the loop at
  once.
\<close>

fun array_some :: "('x \<Rightarrow> fault + val) \<Rightarrow> 'x list \<Rightarrow> fault + bool" where
  "array_some cb [] = Inr False"
| "array_some cb (x # xs) =
     (case cb x of
        Inl e \<Rightarrow> Inl e
      | Inr v \<Rightarrow> if truthy_val v then Inr True else array_some cb xs)"

text \<open>
  \<open>roles.some(...)\<close> on whatever \<open>getUserRoles\<close> returned: only an array has the
  method; on any other value the call throws a TypeError.
\<close>

fun call_some :: "jsval \<Rightarrow> (string \<Rightarrow> fault + val) \<Rightarrow> fault + bool" where
  "call_some (JArr rs) cb = array_some cb rs"
| "call_some v cb = Inl (TypeError ''roles.some is not a function'')"

definition hasPermission ::
  "('a, 'd) heap \<Rightarrow> PolicyDefinition \<Rightarrow> 'a caller \<Rightarrow> string \<Rightarrow> string \<Rightarrow> 'd option
     \<Rightarrow> fault + bool" where
  "hasPermission h policy user resource action data =
     (case getUserRoles user of
        Inl e \<Rightarrow> Inl e
      | Inr rs \<Rightarrow>
          call_some rs (\<lambda>role. checkRolePermission h policy role resource action user data))"


fun is_deny :: "fault + val \<Rightarrow> bool" where
  "is_deny (Inr v) = (\<not> truthy_val v)"
| "is_deny (Inl e) = False"

fun to_boolean :: "fault + val \<Rightarrow> fault + bool" where
  "to_boolean (Inr v) = Inr (truthy_val v)"
| "to_boolean (Inl e) = Inl e"

text \<open>
  The own data property \<open>k\<close> of an object, and the check that a policy holds as own
  properties along the path \<open>roles[role][resource][action]\<close>: present only when each
  step is an own data property and the first two hold objects. These are the entries
  that a declaration writes; they are used to state what a policy declares.
\<close>

definition own_data :: "('a, 'd) heap \<Rightarrow> addr \<Rightarrow> string \<Rightarrow> val option" where
  "own_data h a k =
     (case objs h a of
        None \<Rightarrow> None
      | Some ob \<Rightarrow> (case props ob k of Some (Data x w) \<Rightarrow> Some x | _ \<Rightarrow> None))"

definition own_rule ::
  "('a, 'd) heap \<Rightarrow> PolicyDefinition \<Rightarrow> string \<Rightarrow> string \<Rightarrow> string \<Rightarrow> val option" where
  "own_rule h policy role resource action =
     (case own_data h (roles policy) role of
        Some (VObj rolePolicy) \<Rightarrow>
          (case own_data h rolePolicy resource of
             Some (VObj resourcePolicy) \<Rightarrow> own_data h resourcePolicy action
           | _ \<Rightarrow> None)
      | _ \<Rightarrow> None)"

text \<open>The function behind a value, if the value is a function.\<close>

definition callable ::
  "('a, 'd) heap \<Rightarrow> val \<Rightarrow> ('a caller \<Rightarrow> 'd option \<Rightarrow> fault + val) option" where
  "callable h v =
     (case v of
        VObj a \<Rightarrow> (case objs h a of None \<Rightarrow> None | Some ob \<Rightarrow> code ob)
      | _ \<Rightarrow> None)"

text \<open>
  A prototype chain that ends within the given number of steps and passes only through
  allocated objects, as every chain of a JavaScript store does.
\<close>

fun chain_ends :: "nat \<Rightarrow> ('a, 'd) heap \<Rightarrow> addr option \<Rightarrow> bool" where
  "chain_ends n h None = True"
| "chain_ends 0 h (Some a) = False"
| "chain_ends (Suc n) h (Some a) =
     (a < fresh h \<and> (case objs h a of None \<Rightarrow> False | Some ob \<Rightarrow> chain_ends n h (proto ob)))"

section \<open>PolicyBuilder (core/policy-builder.ts)\<close>

text \<open>
  The builder holds a reference to one policy object, which its methods mutate in the
  store; the methods are modelled by passing the store. The stage objects
  \<open>PolicyBuilderRole\<close> and \<open>PolicyBuilderResource\<close> hold the names given so far and a
  reference to the builder.
\<close>

record PolicyBuilder =
  policy :: PolicyDefinition

datatype PolicyBuilderRole = PolicyBuilderRole PolicyBuilder string

datatype PolicyBuilderResource = PolicyBuilderResource PolicyBuilder string string

text \<open>\<open>new PolicyBuilder()\<close>: the field initialiser \<open>{ roles: {} }\<close> allocates the roles object.\<close>

definition newBuilder :: "('a, 'd) heap \<Rightarrow> PolicyBuilder \<times> ('a, 'd) heap" where
  "newBuilder h = (case new_object [] h of (a, h1) \<Rightarrow> (\<lparr>policy = \<lparr>roles = a\<rparr>\<rparr>, h1))"

text \<open>
  The guard shared by \<open>forRole\<close> and \<open>updatePolicy\<close>:
  \<open>if (!this.policy.roles[role]) { this.policy.roles[role] = {}; }\<close>.
\<close>

definition ensure_role :: "string \<Rightarrow> PolicyBuilder \<Rightarrow> ('a, 'd) heap \<Rightarrow> fault + ('a, 'd) heap" where
  "ensure_role role b h =
     (case get h (VObj (roles (policy b))) role of
        Inl e \<Rightarrow> Inl e
      | Inr v \<Rightarrow>
          if \<not> truthy_val v
          then (case new_object [] h of
                  (a, h1) \<Rightarrow> set_prop h1 (VObj (roles (policy b))) role (VObj a))
          else Inr h)"

definition forRole ::
  "string \<Rightarrow> PolicyBuilder \<Rightarrow> ('a, 'd) heap \<Rightarrow> fault + (PolicyBuilderRole \<times> ('a, 'd) heap)" where
  "forRole role b h =
     (case ensure_role role b h of
        Inl e \<Rightarrow> Inl e
      | Inr h1 \<Rightarrow> Inr (PolicyBuilderRole b role, h1))"

fun onResource :: "PolicyBuilderRole \<Rightarrow> string \<Rightarrow> PolicyBuilderResource" where
  "onResource (PolicyBuilderRole b role) resource = PolicyBuilderResource b role resource"

text \<open>
  \<open>updatePolicy\<close>: after the guard, \<open>this.policy.roles[role][resource] = actions\<close> reads
  \<open>roles[role]\<close> again and assigns the property \<open>resource\<close> of what it finds.
\<close>

definition updatePolicy ::
  "string \<Rightarrow> string \<Rightarrow> val \<Rightarrow> PolicyBuilder \<Rightarrow> ('a, 'd) heap \<Rightarrow> fault + ('a, 'd) heap" where
  "updatePolicy role resource actions b h =
     (case ensure_role role b h of
        Inl e \<Rightarrow> Inl e
      | Inr h1 \<Rightarrow>
          (case get h1 (VObj (roles (policy b))) role of
             Inl e \<Rightarrow> Inl e
           | Inr rolePolicy \<Rightarrow> set_prop h1 rolePolicy resource actions))"

fun can ::
  "PolicyBuilderResource \<Rightarrow> val \<Rightarrow> ('a, 'd) heap \<Rightarrow> fault + (PolicyBuilder \<times> ('a, 'd) heap)" where
  "can (PolicyBuilderResource b role resource) actions h =
     (case updatePolicy role resource actions b h of
        Inl e \<Rightarrow> Inl e
      | Inr h1 \<Rightarrow> Inr (b, h1))"

definition build :: "PolicyBuilder \<Rightarrow> PolicyDefinition" where
  "build b = policy b"

section \<open>A fragment of the standard objects\<close>

text \<open>
  The part of the standard library that the examples below reach, as ECMAScript defines
  it: \<open>Object.prototype\<close> (address 0) with its methods \<open>toString\<close> and
  \<open>hasOwnProperty\<close> and its accessor \<open>__proto__\<close>, \<open>Function.prototype\<close> (address 1),
  and the prototypes of the wrappers of booleans, numbers and strings (addresses 4 to 6).
  Called as \<open>f(user, data)\<close>, with \<open>this\<close> undefined, \<open>Object.prototype.toString\<close>
  returns the string \<open>[object Undefined]\<close> and \<open>Object.prototype.hasOwnProperty\<close>
  throws a TypeError.
\<close>

definition native_toString :: "'a caller \<Rightarrow> 'd option \<Rightarrow> fault + val" where
  "native_toString user data = Inr (VStr ''[object Undefined]'')"

definition native_hasOwnProperty :: "'a caller \<Rightarrow> 'd option \<Rightarrow> fault + val" where
  "native_hasOwnProperty user data = Inl (TypeError ''Cannot convert undefined or null to object'')"

definition native_noop :: "'a caller \<Rightarrow> 'd option \<Rightarrow> fault + val" where
  "native_noop user data = Inr VUndefined"

definition std_object :: "addr option \<Rightarrow> ('a, 'd) obj" where
  "std_object p = \<lparr>props = Map.empty, proto = p, code = None, fixed_proto = False\<rparr>"

definition std_function :: "('a caller \<Rightarrow> 'd option \<Rightarrow> fault + val) \<Rightarrow> ('a, 'd) obj" where
  "std_function f = \<lparr>props = Map.empty, proto = Some 1, code = Some f, fixed_proto = False\<rparr>"

definition std_heap :: "('a, 'd) heap" where
  "std_heap =
     \<lparr>objs =
        [0 \<mapsto> \<lparr>props = [''toString'' \<mapsto> Data (VObj 2) True,
                         ''hasOwnProperty'' \<mapsto> Data (VObj 3) True,
                         ''__proto__'' \<mapsto> ProtoAccessor],
                proto = None, code = None, fixed_proto = True\<rparr>,
         1 \<mapsto> \<lparr>props = Map.empty, proto = Some 0, code = Some native_noop, fixed_proto = False\<rparr>,
         2 \<mapsto> std_function native_toString,
         3 \<mapsto> std_function native_hasOwnProperty,
         4 \<mapsto> std_object (Some 0),
         5 \<mapsto> std_object (Some 0),
         6 \<mapsto> std_object (Some 0)],
      fresh = 7,
      object_proto = Some 0, function_proto = Some 1,
      boolean_proto = Some 4, number_proto = Some 5, string_proto = Some 6\<rparr>"

section \<open>Example programs\<close>

text \<open>
  An action map as the application writes it, \<open>Record<string, PermissionCheck>\<close>: each
  entry is a boolean or a function. Evaluating the literal allocates the object and the
  functions it holds; the order of these allocations cannot be observed, and the keys of
  a literal are taken to be distinct.
\<close>

datatype ('a, 'd) PermissionCheck =
    Static bool
  | Dynamic "'a caller \<Rightarrow> 'd option \<Rightarrow> fault + val"

fun alloc_entries ::
  "(string \<times> ('a, 'd) PermissionCheck) list \<Rightarrow> ('a, 'd) heap
     \<Rightarrow> (string \<times> val) list \<times> ('a, 'd) heap" where
  "alloc_entries [] h = ([], h)"
| "alloc_entries ((k, Static b) # es) h =
     (case alloc_entries es h of (kvs, h1) \<Rightarrow> ((k, VBool b) # kvs, h1))"
| "alloc_entries ((k, Dynamic f) # es) h =
     (case new_function f h of
        (a, h1) \<Rightarrow> (case alloc_entries es h1 of (kvs, h2) \<Rightarrow> ((k, VObj a) # kvs, h2)))"

definition new_literal ::
  "(string \<times> ('a, 'd) PermissionCheck) list \<Rightarrow> ('a, 'd) heap \<Rightarrow> addr \<times> ('a, 'd) heap" where
  "new_literal es h = (case alloc_entries es h of (kvs, h1) \<Rightarrow> new_object kvs h1)"

text \<open>
  The statement \<open>builder.forRole(role).onResource(resource).can({...})\<close>: the two stage
  calls, then the literal, then \<open>can\<close>.
\<close>

definition declare_literal ::
  "string \<Rightarrow> string \<Rightarrow> (string \<times> ('a, 'd) PermissionCheck) list \<Rightarrow> PolicyBuilder
     \<Rightarrow> ('a, 'd) heap \<Rightarrow> fault + ('a, 'd) heap" where
  "declare_literal role resource es b h =
     (case forRole role b h of
        Inl e \<Rightarrow> Inl e
      | Inr (stage, h1) \<Rightarrow>
          (case new_literal es h1 of
             (m, h2) \<Rightarrow>
               (case can (onResource stage resource) (VObj m) h2 of
                  Inl e \<Rightarrow> Inl e
                | Inr (b', h3) \<Rightarrow> Inr h3)))"

text \<open>Sequencing of statements: an exception ends the program.\<close>

definition and_then ::
  "fault + ('a, 'd) heap \<Rightarrow> (('a, 'd) heap \<Rightarrow> fault + ('a, 'd) heap) \<Rightarrow> fault + ('a, 'd) heap" where
  "and_then r f = (case r of Inl e \<Rightarrow> Inl e | Inr h \<Rightarrow> f h)"

text \<open>
  \<open>new AccessControl(policy).hasPermission(user, resource, action, data)\<close> at the end of a
  program that built the policy.
\<close>

definition ask ::
  "fault + ('a, 'd) heap \<Rightarrow> PolicyDefinition \<Rightarrow> 'a caller \<Rightarrow> string \<Rightarrow> string \<Rightarrow> 'd option
     \<Rightarrow> fault + bool" where
  "ask r p user resource action data =
     (case r of Inl e \<Rightarrow> Inl e | Inr h \<Rightarrow> hasPermission h p user resource action data)"

text \<open>\<open>const builder = new PolicyBuilder()\<close> in the store of the standard objects.\<close>

definition the_builder :: PolicyBuilder where
  "the_builder = \<lparr>policy = \<lparr>roles = 7\<rparr>\<rparr>"

definition builder_heap :: "('a, 'd) heap" where
  "builder_heap = snd (newBuilder std_heap)"

text \<open>
  The API reference's wildcard example:
  \<open>forRole('admin').onResource('article').can({ '*': true })\<close>.
\<close>

definition wildcard_program :: "fault + (unit, unit) heap" where
  "wildcard_program =
     declare_literal ''admin'' ''article'' [(''*'', Static True)] the_builder builder_heap"

definition admin_user :: "unit caller" where
  "admin_user = Caller (JArr [''admin'']) ()"

text \<open>A wildcard grant next to an explicit entry for \<open>delete\<close> that denies.\<close>

definition both_program :: "fault + (unit, unit) heap" where
  "both_program =
     declare_literal ''editor'' ''article'' [(''*'', Static True), (''delete'', Static False)]
       the_builder builder_heap"

definition both_heap :: "(unit, unit) heap" where
  "both_heap = projr both_program"

definition editor_user :: "unit caller" where
  "editor_user = Caller (JArr [''editor'']) ()"

text \<open>A predicate that throws, as \<open>() => { throw new Error('boom') }\<close> does.\<close>

definition throwing_check :: "unit caller \<Rightarrow> unit option \<Rightarrow> fault + val" where
  "throwing_check user data = Inl (Thrown ''boom'')"

definition throwing_program :: "fault + (unit, unit) heap" where
  "throwing_program =
     declare_literal ''author'' ''article'' [(''update'', Dynamic throwing_check)]
       the_builder builder_heap"

definition throwing_heap :: "(unit, unit) heap" where
  "throwing_heap = projr throwing_program"

definition author_user :: "unit caller" where
  "author_user = Caller (JArr [''author'']) ()"




text \<open>
  The policy of test/access-control.test.ts. A user is its \<open>id\<close>, an article its
  \<open>authorId\<close>; the author's rule for \<open>delete\<close> is
  \<open>(user, article) => user.id === article?.authorId\<close>.
\<close>

definition owns_article :: "string caller \<Rightarrow> string option \<Rightarrow> fault + val" where
  "owns_article user article =
     (case user of
        NoCaller \<Rightarrow> Inl (TypeError ''Cannot read properties of null'')
      | Caller r uid \<Rightarrow>
          Inr (VBool (case article of None \<Rightarrow> False | Some authorId \<Rightarrow> uid = authorId)))"

definition test_program :: "fault + (string, string) heap" where
  "test_program =
     and_then
       (declare_literal ''admin'' ''article'' [(''create'', Static True), (''delete'', Static True)]
          the_builder builder_heap)
       (declare_literal ''author'' ''article''
          [(''create'', Static True), (''delete'', Dynamic owns_article)] the_builder)"

definition test_heap :: "(string, string) heap" where
  "test_heap = projr test_program"

text \<open>Callers whose \<open>roles\<close> property is the number 5, the string admin, and \<open>null\<close>.\<close>

definition numeric_roles_user :: "unit caller" where
  "numeric_roles_user = Caller (JNum 5) ()"

definition string_roles_user :: "unit caller" where
  "string_roles_user = Caller (JStr ''admin'') ()"

definition null_roles_user :: "unit caller" where
  "null_roles_user = Caller JNull ()"

text \<open>A caller whose only role, \<open>__proto__\<close>, is declared by no policy.\<close>

definition proto_role_user :: "unit caller" where
  "proto_role_user = Caller (JArr [''__proto__'']) ()"

text \<open>
  A predicate that reads the caller's own role list:
  \<open>(user) => !user.roles.includes('banned')\<close>.
\<close>

definition caller_role_names :: "'a caller \<Rightarrow> string list" where
  "caller_role_names user =
     (case user of Caller (JArr rs) a \<Rightarrow> rs | _ \<Rightarrow> [])"

definition not_banned :: "unit caller \<Rightarrow> unit option \<Rightarrow> fault + val" where
  "not_banned user data = Inr (VBool (''banned'' \<notin> set (caller_role_names user)))"

definition member_program :: "fault + (unit, unit) heap" where
  "member_program =
     declare_literal ''member'' ''article'' [(''read'', Dynamic not_banned)]
       the_builder builder_heap"

definition member_user :: "unit caller" where
  "member_user = Caller (JArr [''member'']) ()"

definition member_banned_user :: "unit caller" where
  "member_banned_user = Caller (JArr [''member'', ''banned'']) ()"

text \<open>
  A policy for admin on comment, and the same program followed by two declarations for
  the role \<open>__proto__\<close> on article.
\<close>

definition comment_program :: "fault + (unit, unit) heap" where
  "comment_program =
     declare_literal ''admin'' ''comment'' [(''read'', Static True)] the_builder builder_heap"

definition proto_program :: "fault + (unit, unit) heap" where
  "proto_program =
     and_then
       (and_then comment_program
          (declare_literal ''__proto__'' ''article'' [(''read'', Static False)] the_builder))
       (declare_literal ''__proto__'' ''article'' [(''read'', Static True)] the_builder)"




text \<open>A policy that declares only \<open>read\<close> for admin on article, and no wildcard.\<close>

definition reader_program :: "fault + (unit, unit) heap" where
  "reader_program =
     declare_literal ''admin'' ''article'' [(''read'', Static True)] the_builder builder_heap"

text \<open>\<open>builder.forRole('guest')\<close> on the new builder: the stage and the store it returns.\<close>

definition guest_declared :: "PolicyBuilderRole \<times> (unit, unit) heap" where
  "guest_declared = projr (forRole ''guest'' the_builder builder_heap)"

section \<open>Basic facts\<close>

lemma find_prop_numeral [simp]:
  "find_prop (numeral n) h None k = None"
  "find_prop (numeral n) h (Some a) k =
     (case objs h a of
        None \<Rightarrow> None
      | Some ob \<Rightarrow>
          (case props ob k of
             Some p \<Rightarrow> Some p
           | None \<Rightarrow> find_prop (pred_numeral n) h (proto ob) k))"
  by (simp_all add: numeral_eq_Suc)

lemma on_chain_numeral [simp]:
  "on_chain (numeral n) h None target = False"
  "on_chain (numeral n) h (Some a) target =
     (if a = target then True
      else case objs h a of None \<Rightarrow> False | Some ob \<Rightarrow> on_chain (pred_numeral n) h (proto ob) target)"
  by (simp_all add: numeral_eq_Suc)

lemma chain_ends_numeral [simp]:
  "chain_ends (numeral n) h (Some a) =
     (a < fresh h \<and> (case objs h a of None \<Rightarrow> False | Some ob \<Rightarrow> chain_ends (pred_numeral n) h (proto ob)))"
  by (simp add: numeral_eq_Suc)

subsection \<open>Reads of own properties\<close>

lemma get_own:
  "own_data h a k = Some v \<Longrightarrow> get h (VObj a) k = Inr v"
  by (auto simp add: own_data_def get_def split: option.splits property.splits)

lemma own_rule_decides:
  "own_rule h p role resource action = Some c \<Longrightarrow>
     checkRolePermission h p role resource action user data = evaluateCheck h c user data"
  by (auto simp add: own_rule_def checkRolePermission_def get_own split: option.splits val.splits)

lemma evaluateCheck_callable:
  "callable h c = Some f \<Longrightarrow> evaluateCheck h c user data = f user data"
  by (auto simp add: callable_def evaluateCheck_def split: val.splits option.splits)

lemma hasPermission_array:
  "hasPermission h p (Caller (JArr rs) a) resource action data =
     array_some (\<lambda>role. checkRolePermission h p role resource action (Caller (JArr rs) a) data) rs"
  by (simp add: hasPermission_def)

subsection \<open>The loop of \<open>some\<close>\<close>

lemma array_some_singleton: "array_some cb [x] = to_boolean (cb x)"
  by (cases "cb x") auto

lemma array_some_deny_iff:
  "array_some cb xs = Inr False \<longleftrightarrow> (\<forall>x\<in>set xs. is_deny (cb x))"
proof (induction xs)
  case Nil
  show ?case by simp
next
  case (Cons a xs)
  then show ?case by (cases "cb a") auto
qed

lemma array_some_first:
  "\<forall>y\<in>set pre. is_deny (cb y) \<Longrightarrow> array_some cb (pre @ x # post) =
     (case cb x of Inl e \<Rightarrow> Inl e
      | Inr v \<Rightarrow> if truthy_val v then Inr True else array_some cb post)"
proof (induction pre)
  case Nil
  show ?case by simp
next
  case (Cons a pre)
  then show ?case by (cases "cb a") auto
qed

lemma array_some_split:
  "array_some cb xs = v \<Longrightarrow> v \<noteq> Inr False \<Longrightarrow>
     \<exists>pre x post. xs = pre @ x # post \<and> to_boolean (cb x) = v \<and> (\<forall>y\<in>set pre. is_deny (cb y))"
proof (induction xs)
  case Nil
  then show ?case by simp
next
  case (Cons a xs)
  show ?case
  proof (cases "is_deny (cb a)")
    case True
    then have "array_some cb xs = v" using Cons.prems by (cases "cb a") auto
    then obtain pre x post where
      h: "xs = pre @ x # post" "to_boolean (cb x) = v" "\<forall>y\<in>set pre. is_deny (cb y)"
      using Cons.IH Cons.prems(2) by blast
    have "a # xs = (a # pre) @ x # post \<and> to_boolean (cb x) = v
            \<and> (\<forall>y\<in>set (a # pre). is_deny (cb y))"
      using h True by simp
    then show ?thesis by blast
  next
    case False
    then have "to_boolean (cb a) = v" using Cons.prems by (cases "cb a") auto
    then have "a # xs = [] @ a # xs \<and> to_boolean (cb a) = v \<and> (\<forall>y\<in>set []. is_deny (cb y))"
      by simp
    then show ?thesis by blast
  qed
qed


lemma to_boolean_fault: "to_boolean r = Inl e \<longleftrightarrow> r = Inl e"
  by (cases r) auto


lemma array_some_fault_iff:
  "array_some cb xs = Inl e \<longleftrightarrow>
     (\<exists>pre x post. xs = pre @ x # post \<and> cb x = Inl e \<and> (\<forall>y\<in>set pre. is_deny (cb y)))"
proof
  assume "array_some cb xs = Inl e"
  then show "\<exists>pre x post. xs = pre @ x # post \<and> cb x = Inl e \<and> (\<forall>y\<in>set pre. is_deny (cb y))"
    using array_some_split[of cb xs "Inl e"] by (simp add: to_boolean_fault)
next
  assume "\<exists>pre x post. xs = pre @ x # post \<and> cb x = Inl e \<and> (\<forall>y\<in>set pre. is_deny (cb y))"
  then obtain pre x post where
    h: "xs = pre @ x # post" "cb x = Inl e" "\<forall>y\<in>set pre. is_deny (cb y)"
    by blast
  show "array_some cb xs = Inl e" using h array_some_first[of pre cb x post] by simp
qed


lemma array_some_cong_set:
  "\<forall>x\<in>set xs. cb x = cb' x \<Longrightarrow> array_some cb xs = array_some cb' xs"
  by (induction xs) (auto split: sum.splits)

lemma array_some_append_grant:
  "array_some cb xs = Inr True \<Longrightarrow> array_some cb (xs @ ys) = Inr True"
  by (induction xs) (auto split: sum.splits if_splits)

subsection \<open>The standard objects and the example programs\<close>

lemma std_heap_fields:
  "fresh (std_heap :: ('a, 'd) heap) = 7"
  "object_proto (std_heap :: ('a, 'd) heap) = Some 0"
  "function_proto (std_heap :: ('a, 'd) heap) = Some 1"
  "boolean_proto (std_heap :: ('a, 'd) heap) = Some 4"
  "number_proto (std_heap :: ('a, 'd) heap) = Some 5"
  "string_proto (std_heap :: ('a, 'd) heap) = Some 6"
  by (simp_all add: std_heap_def)

lemma std_heap_objs:
  "objs (std_heap :: ('a, 'd) heap) 0 =
     Some \<lparr>props = [''toString'' \<mapsto> Data (VObj 2) True,
                     ''hasOwnProperty'' \<mapsto> Data (VObj 3) True,
                     ''__proto__'' \<mapsto> ProtoAccessor],
            proto = None, code = None, fixed_proto = True\<rparr>"
  "objs (std_heap :: ('a, 'd) heap) 1 =
     Some \<lparr>props = Map.empty, proto = Some 0, code = Some native_noop, fixed_proto = False\<rparr>"
  "objs (std_heap :: ('a, 'd) heap) (Suc 0) =
     Some \<lparr>props = Map.empty, proto = Some 0, code = Some native_noop, fixed_proto = False\<rparr>"
  "objs (std_heap :: ('a, 'd) heap) 2 = Some (std_function native_toString)"
  "objs (std_heap :: ('a, 'd) heap) 3 = Some (std_function native_hasOwnProperty)"
  "7 \<le> a \<Longrightarrow> objs (std_heap :: ('a, 'd) heap) a = None"
  by (auto simp add: std_heap_def)

lemmas std_simps = std_heap_fields std_heap_objs std_function_def std_object_def

lemmas program_simps =
  declare_literal_def forRole_def ensure_role_def updatePolicy_def new_literal_def
  new_function_def new_object_def get_def set_prop_def set_proto_def addr_val_def and_then_def
  the_builder_def builder_heap_def newBuilder_def build_def

lemmas query_simps =
  ask_def hasPermission_def checkRolePermission_def evaluateCheck_def

lemma newBuilder_std: "newBuilder std_heap = (the_builder, builder_heap)"
  by (simp add: newBuilder_def builder_heap_def the_builder_def new_object_def std_simps)

section \<open>The wildcard key\<close>

text \<open>
  C1. The documented wildcard grant \<open>{ '*': true }\<close> for admin on article does not make
  \<open>hasPermission\<close> grant an action that has no entry of its own: for the action
  \<open>delete\<close> the evaluator reads \<open>resourcePolicy['delete']\<close>, finds nothing and
  returns \<open>false\<close>.
\<close>

theorem wildcard_grant_not_applied:
  "ask wildcard_program (build the_builder) admin_user ''article'' ''delete'' None = Inr False"
  by (simp add: wildcard_program_def admin_user_def program_simps query_simps std_simps)

text \<open>
  C2. When the action map that a role declares for the resource has an entry for the
  requested action and an entry under \<open>*\<close>, the role's verdict is the evaluation of the
  entry for the requested action, whatever the entry under \<open>*\<close> is; for a caller holding
  just this role it decides the result of \<open>hasPermission\<close>.
\<close>

theorem specific_rule_decides:
  assumes "own_rule h p role resource action = Some specific"
    and "own_rule h p role resource ''*'' = Some wildcard"
  shows "checkRolePermission h p role resource action user data
           = evaluateCheck h specific user data
         \<and> hasPermission h p (Caller (JArr [role]) a) resource action data
           = to_boolean (evaluateCheck h specific (Caller (JArr [role]) a) data)"
  using assms(1)
  by (simp only: hasPermission_array array_some_singleton own_rule_decides simp_thms)

text \<open>
  At the editor policy, where \<open>*\<close> grants and \<open>delete\<close> denies, \<open>delete\<close> is denied.
\<close>

theorem specific_rule_decides_witness:
  "own_rule both_heap (build the_builder) ''editor'' ''article'' ''delete'' = Some (VBool False)
   \<and> own_rule both_heap (build the_builder) ''editor'' ''article'' ''*'' = Some (VBool True)
   \<and> hasPermission both_heap (build the_builder) editor_user ''article'' ''delete'' None
       = Inr False"
proof -
  have s: "own_rule both_heap (build the_builder) ''editor'' ''article'' ''delete''
             = Some (VBool False)"
    by (simp add: both_heap_def both_program_def own_rule_def own_data_def program_simps std_simps)
  have w: "own_rule both_heap (build the_builder) ''editor'' ''article'' ''*''
             = Some (VBool True)"
    by (simp add: both_heap_def both_program_def own_rule_def own_data_def program_simps std_simps)
  have "hasPermission both_heap (build the_builder) (Caller (JArr [''editor'']) ()) ''article''
          ''delete'' None
        = to_boolean (evaluateCheck both_heap (VBool False) (Caller (JArr [''editor'']) ()) None)"
    using specific_rule_decides[OF s w, of NoCaller None "()"] by (rule conjunct2)
  then show ?thesis using s w by (simp add: editor_user_def evaluateCheck_def)
qed

section \<open>Aggregation over the caller's roles\<close>




section \<open>Absent entries\<close>

text \<open>
  C4. An action that the declared action map has no entry for is not always denied: a
  name that the action map inherits from \<open>Object.prototype\<close> is read like an entry.
  For an admin who is declared \<open>read\<close> on article and nothing else, with no wildcard,
  the undeclared action \<open>toString\<close> reads the inherited function, which is called and
  returns a non-empty string, so \<open>hasPermission\<close> grants. For a caller whose only role
  is the undeclared \<open>__proto__\<close>, resource and action \<open>hasOwnProperty\<close> reach the
  inherited function, whose call throws, so \<open>hasPermission\<close> ends with a TypeError
  instead of a deny.
\<close>

theorem inherited_name_read_as_entry:
  "ask reader_program (build the_builder) admin_user ''article'' ''toString'' None = Inr True
   \<and> ask reader_program (build the_builder) proto_role_user ''hasOwnProperty''
       ''hasOwnProperty'' None
     = Inl (TypeError ''Cannot convert undefined or null to object'')"
  by (simp add: reader_program_def admin_user_def proto_role_user_def program_simps query_simps
        std_simps native_toString_def native_hasOwnProperty_def)

section \<open>Exceptions of predicates\<close>

text \<open>
  C5 (as amended). An exception thrown by the predicate that a role declares for the
  resource and action is the result of \<open>checkRolePermission\<close> for that role,
  unchanged. It is the result of \<open>hasPermission\<close> for a caller holding that one role,
  and in general whenever every role listed before it resolves to deny.
  \<open>hasPermission\<close> returns deny only when every role resolved to deny, so an exception
  is never turned into a deny; and for a caller with a role list, an exception of
  \<open>hasPermission\<close> is the exception that resolving one of the caller's roles ended
  with.
\<close>

theorem predicate_fault_propagates:
  "(own_rule h p role resource action = Some c \<and> callable h c = Some f
        \<and> f user data = Inl e \<longrightarrow>
      checkRolePermission h p role resource action user data = Inl e)
   \<and> (own_rule h p role resource action = Some c \<and> callable h c = Some f
        \<and> f (Caller (JArr [role]) a) data = Inl e \<longrightarrow>
      hasPermission h p (Caller (JArr [role]) a) resource action data = Inl e)
   \<and> (\<forall>pre r post. rs = pre @ r # post
        \<and> checkRolePermission h p r resource action (Caller (JArr rs) a) data = Inl e
        \<and> (\<forall>q\<in>set pre.
              is_deny (checkRolePermission h p q resource action (Caller (JArr rs) a) data)) \<longrightarrow>
      hasPermission h p (Caller (JArr rs) a) resource action data = Inl e)
   \<and> (hasPermission h p (Caller (JArr rs) a) resource action data = Inr False \<longrightarrow>
      (\<forall>r\<in>set rs.
         is_deny (checkRolePermission h p r resource action (Caller (JArr rs) a) data)))
   \<and> (hasPermission h p (Caller (JArr rs) a) resource action data = Inl e \<longrightarrow>
      (\<exists>r\<in>set rs. checkRolePermission h p r resource action (Caller (JArr rs) a) data = Inl e))"
proof -
  have one: "own_rule h p role resource action = Some c \<and> callable h c = Some f
        \<and> f user data = Inl e \<longrightarrow>
      checkRolePermission h p role resource action user data = Inl e"
    by (simp add: own_rule_decides evaluateCheck_callable)
  have single: "own_rule h p role resource action = Some c \<and> callable h c = Some f
        \<and> f (Caller (JArr [role]) a) data = Inl e \<longrightarrow>
      hasPermission h p (Caller (JArr [role]) a) resource action data = Inl e"
    by (simp add: hasPermission_array own_rule_decides evaluateCheck_callable)
  have first: "\<forall>pre r post. rs = pre @ r # post
        \<and> checkRolePermission h p r resource action (Caller (JArr rs) a) data = Inl e
        \<and> (\<forall>q\<in>set pre.
              is_deny (checkRolePermission h p q resource action (Caller (JArr rs) a) data)) \<longrightarrow>
      hasPermission h p (Caller (JArr rs) a) resource action data = Inl e"
    unfolding hasPermission_array array_some_fault_iff by blast
  have deny: "hasPermission h p (Caller (JArr rs) a) resource action data = Inr False \<longrightarrow>
      (\<forall>r\<in>set rs.
         is_deny (checkRolePermission h p r resource action (Caller (JArr rs) a) data))"
    by (simp add: hasPermission_array array_some_deny_iff)
  have origin: "hasPermission h p (Caller (JArr rs) a) resource action data = Inl e \<longrightarrow>
      (\<exists>r\<in>set rs. checkRolePermission h p r resource action (Caller (JArr rs) a) data = Inl e)"
  proof
    assume "hasPermission h p (Caller (JArr rs) a) resource action data = Inl e"
    then obtain pre r post where
      h: "rs = pre @ r # post"
         "checkRolePermission h p r resource action (Caller (JArr rs) a) data = Inl e"
      unfolding hasPermission_array array_some_fault_iff by blast
    have "r \<in> set rs" using h(1) by simp
    then show "\<exists>r\<in>set rs.
        checkRolePermission h p r resource action (Caller (JArr rs) a) data = Inl e"
      using h(2) by blast
  qed
  show ?thesis using one single first deny origin by blast
qed

text \<open>The author whose rule for \<open>update\<close> throws: the call ends with that exception.\<close>

theorem predicate_fault_propagates_witness:
  "own_rule throwing_heap (build the_builder) ''author'' ''article'' ''update'' = Some (VObj 9)
   \<and> callable throwing_heap (VObj 9) = Some throwing_check
   \<and> throwing_check author_user None = Inl (Thrown ''boom'')
   \<and> hasPermission throwing_heap (build the_builder) author_user ''article'' ''update'' None
       = Inl (Thrown ''boom'')"
proof -
  have l: "own_rule throwing_heap (build the_builder) ''author'' ''article'' ''update''
             = Some (VObj 9)"
    by (simp add: throwing_heap_def throwing_program_def own_rule_def own_data_def program_simps
          std_simps)
  have c: "callable throwing_heap (VObj 9) = Some throwing_check"
    by (simp add: throwing_heap_def throwing_program_def callable_def program_simps std_simps)
  have f: "throwing_check (Caller (JArr [''author'']) ()) None = Inl (Thrown ''boom'')"
    by (simp add: throwing_check_def)
  show ?thesis
    using l c f predicate_fault_propagates[of throwing_heap "build the_builder" "''author''"
        "''article''" "''update''" "VObj 9" throwing_check author_user None "Thrown ''boom''"
        "()" "[]"]
    by (simp add: author_user_def)
qed

text \<open>
  The claim as written fails in its last part, that \<open>hasPermission\<close> throws only
  through a predicate: the wildcard example declares no predicate, yet the call throws
  for a caller whose \<open>roles\<close> is a string.
\<close>

theorem fault_without_predicate_counterexample:
  "ask wildcard_program (build the_builder) string_roles_user ''article'' ''delete'' None
     = Inl (TypeError ''roles.some is not a function'')"
  by (simp add: ask_def hasPermission_def string_roles_user_def wildcard_program_def
        program_simps std_simps)

section \<open>Callers without a role list\<close>

text \<open>
  C6 (as amended). For a caller whose \<open>roles\<close> property is missing, \<open>null\<close> or any other
  falsy value, \<open>hasPermission\<close> takes the role list to be empty and returns deny for
  every policy, resource, action and data, with no exception.
\<close>

theorem falsy_roles_deny:
  "\<not> truthy r \<Longrightarrow> hasPermission h p (Caller r a) resource action data = Inr False"
  by (simp add: hasPermission_def)

theorem falsy_roles_deny_witness:
  "\<not> truthy JNull
   \<and> hasPermission builder_heap (build the_builder) null_roles_user ''article'' ''delete'' None
       = Inr False"
  using falsy_roles_deny[of JNull builder_heap "build the_builder" "()" "''article''"
      "''delete''" None]
  by (simp add: null_roles_user_def)

text \<open>
  The claim as written fails for a \<open>roles\<close> property that is truthy and not an array:
  with \<open>roles: 5\<close> the call of \<open>roles.some\<close> throws a TypeError.
\<close>

theorem truthy_non_array_roles_counterexample:
  "hasPermission builder_heap (build the_builder) numeric_roles_user ''article'' ''delete'' None
     = Inl (TypeError ''roles.some is not a function'')"
  by (simp add: hasPermission_def numeric_roles_user_def)

section \<open>Adding roles\<close>

text \<open>
  C7 (as amended). If \<open>hasPermission\<close> grants for a caller with role list \<open>rs\<close>, and
  each role of \<open>rs\<close> resolves to the same verdict for the caller with the extended role
  list as for the original caller (as static entries do, and predicates that do not read
  the caller's role list), then \<open>hasPermission\<close> grants for the caller whose role
  list is \<open>rs\<close> followed by any further roles.
\<close>

theorem role_union_monotone:
  assumes grant: "hasPermission h p (Caller (JArr rs) a) resource action data = Inr True"
    and stable: "\<forall>r\<in>set rs.
                   checkRolePermission h p r resource action (Caller (JArr (rs @ extra)) a) data
                   = checkRolePermission h p r resource action (Caller (JArr rs) a) data"
  shows "hasPermission h p (Caller (JArr (rs @ extra)) a) resource action data = Inr True"
proof -
  have "array_some
          (\<lambda>r. checkRolePermission h p r resource action (Caller (JArr (rs @ extra)) a) data) rs
        = array_some
          (\<lambda>r. checkRolePermission h p r resource action (Caller (JArr rs) a) data) rs"
    using stable by (intro array_some_cong_set) simp
  then have "array_some
          (\<lambda>r. checkRolePermission h p r resource action (Caller (JArr (rs @ extra)) a) data) rs
        = Inr True"
    using grant by (simp add: hasPermission_array)
  then show ?thesis
    unfolding hasPermission_array by (rule array_some_append_grant)
qed

text \<open>The test policy's admin stays granted when the author role is added.\<close>

theorem role_union_monotone_witness:
  "hasPermission test_heap (build the_builder) (Caller (JArr [''admin'']) ''1'') ''article''
       ''delete'' (Some ''2'') = Inr True
   \<and> hasPermission test_heap (build the_builder) (Caller (JArr ([''admin''] @ [''author''])) ''1'')
       ''article'' ''delete'' (Some ''2'') = Inr True"
proof -
  have g: "hasPermission test_heap (build the_builder) (Caller (JArr [''admin'']) ''1'')
             ''article'' ''delete'' (Some ''2'') = Inr True"
    by (simp add: test_heap_def test_program_def program_simps query_simps std_simps)
  have s: "\<forall>r\<in>set [''admin''].
             checkRolePermission test_heap (build the_builder) r ''article'' ''delete''
               (Caller (JArr ([''admin''] @ [''author''])) ''1'') (Some ''2'')
             = checkRolePermission test_heap (build the_builder) r ''article'' ''delete''
               (Caller (JArr [''admin'']) ''1'') (Some ''2'')"
    by (simp add: test_heap_def test_program_def program_simps query_simps std_simps)
  show ?thesis using g role_union_monotone[OF g s] by simp
qed

text \<open>
  The claim as written fails when a predicate reads the caller's role list: the member
  is granted \<open>read\<close>, the same member with the added role banned is denied.
\<close>

theorem added_role_revokes_counterexample:
  "ask member_program (build the_builder) member_user ''article'' ''read'' None = Inr True
   \<and> ask member_program (build the_builder) member_banned_user ''article'' ''read'' None
       = Inr False"
  by (simp add: member_program_def member_user_def member_banned_user_def program_simps
        query_simps std_simps not_banned_def caller_role_names_def)

section \<open>The builder\<close>

text \<open>
  C8. Declaring action maps for a role does not always leave the other (role, resource)
  pairs as they were: for the role name \<open>__proto__\<close> the builder finds
  \<open>Object.prototype\<close> under \<open>roles['__proto__']\<close>, creates no role and assigns
  \<open>Object.prototype[resource]\<close>. After admin was declared on comment only, admin is
  denied \<open>read\<close> on article; after two declarations for \<open>__proto__\<close> on article, the
  second map is what admin reads for article, and admin is granted.
\<close>

theorem proto_declaration_leaks:
  "ask comment_program (build the_builder) admin_user ''article'' ''read'' None = Inr False
   \<and> ask proto_program (build the_builder) admin_user ''article'' ''read'' None = Inr True"
  by (simp add: comment_program_def proto_program_def admin_user_def program_simps query_simps
        std_simps)

subsection \<open>Allocation leaves the chains of allocated objects as they are\<close>

lemma find_prop_None: "find_prop n h None k = None"
  by (cases n) simp_all

lemma find_prop_stable:
  "chain_ends n h s \<Longrightarrow> \<forall>a<fresh h. objs h' a = objs h a \<Longrightarrow> n \<le> m \<Longrightarrow> n \<le> m' \<Longrightarrow>
     find_prop m' h' s k = find_prop m h s k"
proof (induction n arbitrary: s m m')
  case 0
  then have "s = None" by (cases s) simp_all
  then show ?case by (simp add: find_prop_None)
next
  case (Suc n)
  show ?case
  proof (cases s)
    case None
    then show ?thesis by (simp add: find_prop_None)
  next
    case (Some a)
    obtain m1 m1' where m: "m = Suc m1" "m' = Suc m1'" "n \<le> m1" "n \<le> m1'"
      using Suc.prems(3,4) by (cases m; cases m') simp_all
    from Suc.prems(1) Some obtain ob where
      a: "a < fresh h" "objs h a = Some ob" "chain_ends n h (proto ob)"
      by (auto split: option.splits)
    have same: "objs h' a = Some ob" using a Suc.prems(2) by simp
    have "find_prop m1' h' (proto ob) k = find_prop m1 h (proto ob) k"
      using Suc.IH[OF a(3) Suc.prems(2) m(3) m(4)] .
    then show ?thesis using Some m a same by (cases "props ob k") simp_all
  qed
qed

lemma get_after_alloc:
  assumes "chain_ends (Suc (fresh h)) h (Some r)"
  shows "get (snd (new_object kvs h)) (VObj r) k = get h (VObj r) k"
proof -
  from assms obtain ob where r: "r < fresh h" "objs h r = Some ob"
    by (auto split: option.splits)
  have agree: "\<forall>a<fresh h. objs (snd (new_object kvs h)) a = objs h a"
    by (simp add: new_object_def)
  have fr: "fresh (snd (new_object kvs h)) = Suc (fresh h)"
    by (simp add: new_object_def)
  have "find_prop (Suc (Suc (fresh h))) (snd (new_object kvs h)) (Some r) k
          = find_prop (Suc (fresh h)) h (Some r) k"
    using find_prop_stable[OF assms agree, of "Suc (fresh h)" "Suc (Suc (fresh h))" k] by simp
  then have lp: "lookup_prop (snd (new_object kvs h)) (VObj r) k = lookup_prop h (VObj r) k"
    by (simp only: lookup_prop.simps fr)
  have pv: "proto_val (snd (new_object kvs h)) (VObj r) = proto_val h (VObj r)"
    using r agree by simp
  show ?thesis by (simp only: get_def lp pv)
qed

lemma get_object_returns: "\<exists>v. get h (VObj a) k = Inr v"
  by (simp add: get_def del: find_prop.simps split: option.splits property.splits)

lemma set_prop_then_truthy:
  assumes set: "set_prop h (VObj r) k (VObj a) = Inr h1"
    and falsy: "get h (VObj r) k = Inr v" "\<not> truthy_val v"
  shows "\<exists>v'. get h1 (VObj r) k = Inr v' \<and> truthy_val v'"
proof (cases "lookup_prop h (VObj r) k")
  case None
  then obtain ob where ob: "objs h r = Some ob"
    using set by (auto simp add: set_prop_def split: option.splits)
  then have "h1 = h\<lparr>objs := (objs h)(r \<mapsto> ob\<lparr>props := (props ob)(k \<mapsto> Data (VObj a) True)\<rparr>)\<rparr>"
    using set None by (simp add: set_prop_def)
  then have "get h1 (VObj r) k = Inr (VObj a)"
    by (simp add: get_def)
  then show ?thesis by simp
next
  case (Some p)
  show ?thesis
  proof (cases p)
    case (Data x w)
    then have w: "w" using set Some by (cases w) (simp_all add: set_prop_def)
    obtain ob where ob: "objs h r = Some ob"
      using set Some Data w by (auto simp add: set_prop_def split: option.splits)
    then have "h1 = h\<lparr>objs := (objs h)(r \<mapsto> ob\<lparr>props := (props ob)(k \<mapsto> Data (VObj a) True)\<rparr>)\<rparr>"
      using set Some Data w by (simp add: set_prop_def)
    then have "get h1 (VObj r) k = Inr (VObj a)"
      by (simp add: get_def)
    then show ?thesis by simp
  next
    case ProtoAccessor
    have sp: "set_proto h (VObj r) (VObj a) = Inr h1"
      using set Some ProtoAccessor by (simp add: set_prop_def)
    then obtain ob where ob: "objs h r = Some ob"
      by (auto simp add: set_proto_def split: option.splits)
    have "v = proto_val h (VObj r)"
      using falsy(1) Some ProtoAccessor by (simp add: get_def)
    then have noproto: "proto ob = None"
      using falsy(2) ob by (cases "proto ob") (simp_all add: addr_val_def)
    have own: "props ob k = Some ProtoAccessor"
      using Some ProtoAccessor ob noproto by (simp add: find_prop_None split: option.splits)
    have "h1 = h\<lparr>objs := (objs h)(r \<mapsto> ob\<lparr>proto := Some a\<rparr>)\<rparr>"
      using sp ob noproto by (simp add: set_proto_def Let_def split: if_splits)
    then have "get h1 (VObj r) k = Inr (VObj a)"
      using own by (simp add: get_def addr_val_def)
    then show ?thesis by simp
  qed
qed

lemma ensure_role_then_truthy:
  assumes "chain_ends (Suc (fresh h)) h (Some (roles (policy b)))"
    and "ensure_role role b h = Inr h1"
  shows "\<exists>v. get h1 (VObj (roles (policy b))) role = Inr v \<and> truthy_val v"
proof -
  obtain v where v: "get h (VObj (roles (policy b))) role = Inr v"
    using get_object_returns by blast
  show ?thesis
  proof (cases "truthy_val v")
    case True
    then have "h1 = h" using assms(2) v by (simp add: ensure_role_def)
    then show ?thesis using v True by simp
  next
    case False
    have set: "set_prop (snd (new_object [] h)) (VObj (roles (policy b))) role (VObj (fresh h))
                 = Inr h1"
      using assms(2) v False by (simp add: ensure_role_def new_object_def)
    have "get (snd (new_object [] h)) (VObj (roles (policy b))) role = Inr v"
      using get_after_alloc[OF assms(1)] v by simp
    then show ?thesis using set_prop_then_truthy[OF set _ False] by simp
  qed
qed

text \<open>
  C9. \<open>forRole\<close> on a role that the builder already holds, that is, one for which
  \<open>roles[role]\<close> reads a truthy value, leaves the store, and so the policy in it, as it
  was; and in a store whose chain from the roles object ends, calling \<open>forRole\<close> a
  second time for the same role changes nothing.
\<close>

theorem forRole_declared_unchanged:
  "(\<forall>v. get h (VObj (roles (policy b))) role = Inr v \<and> truthy_val v \<longrightarrow>
      forRole role b h = Inr (PolicyBuilderRole b role, h) \<and> build b = policy b)
   \<and> (\<forall>stage h1. chain_ends (Suc (fresh h)) h (Some (roles (policy b)))
        \<and> forRole role b h = Inr (stage, h1) \<longrightarrow>
      forRole role b h1 = Inr (stage, h1))"
proof -
  have declared: "\<forall>v. get h (VObj (roles (policy b))) role = Inr v \<and> truthy_val v \<longrightarrow>
      forRole role b h = Inr (PolicyBuilderRole b role, h) \<and> build b = policy b"
    by (simp add: forRole_def ensure_role_def build_def)
  have again: "forRole role b h1 = Inr (stage, h1)"
    if c: "chain_ends (Suc (fresh h)) h (Some (roles (policy b)))"
      and f: "forRole role b h = Inr (stage, h1)" for stage h1
  proof -
    from f have e: "ensure_role role b h = Inr h1" and s: "stage = PolicyBuilderRole b role"
      by (auto simp add: forRole_def split: sum.splits)
    obtain v where "get h1 (VObj (roles (policy b))) role = Inr v" "truthy_val v"
      using ensure_role_then_truthy[OF c e] by blast
    then show ?thesis using s by (simp add: forRole_def ensure_role_def)
  qed
  show ?thesis using declared again by blast
qed

text \<open>
  On the test suite's builder, \<open>forRole('admin')\<close> leaves the store with the admin's
  entries as it was.
\<close>

theorem forRole_declared_unchanged_witness:
  "get test_heap (VObj (roles (policy the_builder))) ''admin'' = Inr (VObj 8)
   \<and> truthy_val (VObj 8)
   \<and> forRole ''admin'' the_builder test_heap = Inr (PolicyBuilderRole the_builder ''admin'', test_heap)
   \<and> own_rule test_heap (build the_builder) ''admin'' ''article'' ''delete'' = Some (VBool True)
   \<and> chain_ends (Suc (fresh builder_heap)) (builder_heap :: (unit, unit) heap)
         (Some (roles (policy the_builder)))
   \<and> forRole ''guest'' the_builder builder_heap = Inr guest_declared
   \<and> forRole ''guest'' the_builder (snd guest_declared) = Inr guest_declared"
proof -
  have d: "get test_heap (VObj (roles (policy the_builder))) ''admin'' = Inr (VObj 8)"
    by (simp add: test_heap_def test_program_def program_simps std_simps)
  have l: "own_rule test_heap (build the_builder) ''admin'' ''article'' ''delete''
             = Some (VBool True)"
    by (simp add: test_heap_def test_program_def own_rule_def own_data_def program_simps
          std_simps)
  have u: "forRole ''admin'' the_builder test_heap
          = Inr (PolicyBuilderRole the_builder ''admin'', test_heap)"
    using d forRole_declared_unchanged[of test_heap the_builder "''admin''", THEN conjunct1]
    by simp
  have c: "chain_ends (Suc (fresh builder_heap)) (builder_heap :: (unit, unit) heap)
         (Some (roles (policy the_builder)))"
    by (simp add: program_simps std_simps)
  have f: "forRole ''guest'' the_builder builder_heap
             = Inr (fst guest_declared, snd guest_declared)"
    by (simp add: guest_declared_def program_simps std_simps)
  have "forRole ''guest'' the_builder (snd guest_declared)
          = Inr (fst guest_declared, snd guest_declared)"
    using c f forRole_declared_unchanged[of builder_heap the_builder "''guest''",
        THEN conjunct2, rule_format, of "fst guest_declared" "snd guest_declared"]
    by (simp only: simp_thms)
  then show ?thesis using d l u c f by simp
qed

section \<open>The key \<open>*\<close> as a requested action\<close>



end
